theory Spec2Isabelle
  imports Main
begin

section \<open>The session layer of go-bambou (bambou/session.go)\<close>

text \<open>
  The development embeds \<^verbatim>\<open>bambou/session.go\<close>: the authorization header, the request
  headers, the status-driven dispatch of \<^verbatim>\<open>send\<close>, URL resolution and the operations of
  a \<^verbatim>\<open>Session\<close>. Go values that live behind pointers and are shared (resource objects,
  the HTTP client's transport, the package variable \<^verbatim>\<open>currentSession\<close>, the requests the
  client has dispatched) are fields of an explicit \<open>world\<close>; every operation takes the world
  and returns the new one. A Go panic is a result value.
\<close>

subsection \<open>Data of the package that session.go uses\<close>

text \<open>
  Modelled from the spec: the type \<^verbatim>\<open>Error\<close> and its constructor \<^verbatim>\<open>NewBambouError\<close> are
  declared outside session.go. The spec gives an error a title and a description.
\<close>

record Error =
  Title :: string
  Description :: string

definition NewBambouError :: "string \<Rightarrow> string \<Rightarrow> Error" where
  "NewBambouError title description = \<lparr>Title = title, Description = description\<rparr>"

text \<open>
  Modelled from the spec: \<^verbatim>\<open>Identity\<close>, \<^verbatim>\<open>Identifiable\<close> and \<^verbatim>\<open>Rootable\<close> are declared outside
  session.go. An identity has a category (the path segment of a resource type) and a name
  (the path segment of the root). An object has an identity and an identifier; \<open>isRootable\<close>
  says whether its dynamic type implements \<^verbatim>\<open>Rootable\<close>, which is what the type assertion
  \<^verbatim>\<open>o.(Rootable)\<close> tests, and \<open>APIKey\<close> is what \<^verbatim>\<open>APIKey()\<close> returns and \<^verbatim>\<open>SetAPIKey\<close> stores.
\<close>

record Identity =
  Name :: string
  Category :: string

record Identifiable =
  identity :: Identity
  Identifier :: string
  isRootable :: bool
  APIKey :: string

definition SetAPIKey :: "Identifiable \<Rightarrow> string \<Rightarrow> Identifiable" where
  "SetAPIKey obj key = obj\<lparr>APIKey := key\<rparr>"

text \<open>
  Modelled from the spec: \<^verbatim>\<open>FetchingInfo\<close> is declared outside session.go; its fields are the
  ones session.go reads and writes.
\<close>

record FetchingInfo =
  Filter :: string
  FilterType :: string
  OrderBy :: string
  Page :: int
  PageSize :: int
  TotalCount :: int
  GroupBy :: "string list"

text \<open>
  Modelled from the spec: \<^verbatim>\<open>VsdErrorList\<close> is declared outside session.go. The body of a 404
  or 409 response is a list of error groups, each with a list of description entries that
  carry a title and a description.
\<close>

record VsdError =
  Descriptions :: "Error list"

record VsdErrorList =
  VsdErrors :: "VsdError list"

subsection \<open>Sessions, requests, responses\<close>

type_synonym Certificate = string

record Transport =
  Certificates :: "Certificate list"
  InsecureSkipVerify :: bool

text \<open>
  \<open>root\<close> is the address of the root object, \<open>None\<close> for a nil interface; \<open>client\<close> is the
  address of the HTTP client, which both constructors allocate.
\<close>

record Session =
  root :: "nat option"
  Certificate :: "Certificate option"
  Username :: string
  Password :: string
  Organization :: string
  URL :: string
  client :: nat

definition NewSession :: "string \<Rightarrow> string \<Rightarrow> string \<Rightarrow> string \<Rightarrow> nat option \<Rightarrow> nat \<Rightarrow> Session" where
  "NewSession username password organization url rt cl =
     \<lparr>root = rt, Certificate = None, Username = username, Password = password,
      Organization = organization, URL = url, client = cl\<rparr>"

definition NewX509Session :: "Certificate \<Rightarrow> string \<Rightarrow> nat option \<Rightarrow> nat \<Rightarrow> Session" where
  "NewX509Session cert url rt cl =
     \<lparr>root = rt, Certificate = Some cert, Username = [], Password = [],
      Organization = [], URL = url, client = cl\<rparr>"

text \<open>
  A request as \<^verbatim>\<open>http.NewRequest\<close> builds it. \<open>reqURL\<close> is the text \<^verbatim>\<open>request.URL.String()\<close>
  gives, taken to be the text the request was built from. \<open>reqBody\<close> is the body, a reader:
  \<open>None\<close> for nil, otherwise what is still to be read from it, which is what a dispatch of
  the request sends. \<open>reqHeader\<close> is the header map, where \<^verbatim>\<open>Header.Set\<close> replaces the value
  of a key.
\<close>

record Request =
  Method :: string
  reqURL :: string
  reqBody :: "string option"
  reqHeader :: "string \<rightharpoonup> string"

record Response =
  StatusCode :: int
  Status :: string
  Header :: "string \<rightharpoonup> string"
  Body :: string
  ContentLength :: int

text \<open>
  The body of a request after \<^verbatim>\<open>client.Do\<close> has dispatched it: the same reader, read to its
  end. A nil body stays nil.
\<close>

definition consumed :: "string option \<Rightarrow> string option" where
  "consumed body = (case body of None \<Rightarrow> None | Some _ \<Rightarrow> Some [])"

definition HeaderSet :: "Request \<Rightarrow> string \<Rightarrow> string \<Rightarrow> Request" where
  "HeaderSet request k v = request\<lparr>reqHeader := (reqHeader request)(k \<mapsto> v)\<rparr>"

definition HeaderGet :: "Response \<Rightarrow> string \<Rightarrow> string" where
  "HeaderGet response k = (case Header response k of None \<Rightarrow> [] | Some v \<Rightarrow> v)"

text \<open>
  The state outside a call: the package variable \<^verbatim>\<open>currentSession\<close>, the resource objects
  by address, the transport of each HTTP client by address, and the requests that
  \<^verbatim>\<open>client.Do\<close> has dispatched, oldest first.
\<close>

record world =
  currentSession :: "Session option"
  objects :: "nat \<Rightarrow> Identifiable"
  transports :: "nat \<Rightarrow> Transport option"
  sent :: "Request list"

text \<open>
  What session.go calls in the Go library and on the network, as parameters:
  \<^verbatim>\<open>base64.StdEncoding.EncodeToString\<close>, \<^verbatim>\<open>strconv.Itoa\<close>, \<^verbatim>\<open>strconv.Atoi\<close> (0 when the text is
  not a number, the error being dropped by the caller), the error of \<^verbatim>\<open>http.NewRequest\<close>
  for a URL (\<open>None\<close> when it accepts the URL), \<^verbatim>\<open>client.Do\<close> (the answer of the network to a
  request, given the requests dispatched so far: the text of a transport error or a
  response), and \<^verbatim>\<open>json\<close> encoding and decoding for each destination type (a decoder
  returns the error text, if any, and the destination as it leaves it).
\<close>

record 'd platform =
  EncodeToString :: "string \<Rightarrow> string"
  Itoa :: "int \<Rightarrow> string"
  Atoi :: "string \<Rightarrow> int"
  ParseURL :: "string \<Rightarrow> string option"
  Do :: "Request list \<Rightarrow> Request \<Rightarrow> string + Response"
  UnmarshalErrors :: "string \<Rightarrow> string + VsdErrorList"
  UnmarshalEntity :: "string \<Rightarrow> Identifiable \<Rightarrow> string option \<times> Identifiable"
  UnmarshalDest :: "string \<Rightarrow> 'd \<Rightarrow> string option \<times> 'd"
  EncodeEntity :: "Identifiable \<Rightarrow> string + string"
  EncodeIDs :: "string list \<Rightarrow> string"

text \<open>
  A call returns a value, returns an error of the package, or panics: on a method call
  through a nil interface or pointer, or on an index out of range.
\<close>

datatype panic = NilDereference | IndexOutOfRange

datatype 'a result = Ok 'a | Fail Error | Panic panic

definition NewRequest :: "'d platform \<Rightarrow> string \<Rightarrow> string \<Rightarrow> string option \<Rightarrow> string + Request" where
  "NewRequest p method url body =
     (case ParseURL p url of
        Some err \<Rightarrow> Inl err
      | None \<Rightarrow> Inr \<lparr>Method = method, reqURL = url, reqBody = body, reqHeader = Map.empty\<rparr>)"

text \<open>\<^verbatim>\<open>strings.Join\<close>.\<close>

fun Join :: "string list \<Rightarrow> string \<Rightarrow> string" where
  "Join [] sep = []"
| "Join [x] sep = x"
| "Join (x # y # ys) sep = x @ sep @ Join (y # ys) sep"

subsection \<open>CurrentSession\<close>

definition CurrentSession :: "world \<Rightarrow> Session option" where
  "CurrentSession w = currentSession w"

subsection \<open>Authorization and request headers\<close>

definition makeAuthorizationHeaders :: "'d platform \<Rightarrow> Session \<Rightarrow> world \<Rightarrow> Error + string" where
  "makeAuthorizationHeaders p s w =
     (if Username s = [] then
        Inl (NewBambouError ''Invalid Credentials'' ''No username given'')
      else case root s of
        None \<Rightarrow> Inl (NewBambouError ''Invalid Credentials'' ''No root user set'')
      | Some r \<Rightarrow>
          (let key = APIKey (objects w r) in
           if Password s = [] \<and> key = [] then
             Inl (NewBambouError ''Invalid Credentials''
                    ''No password or authentication token given'')
           else
             (let key = (if key = [] then Password s else key) in
              Inr (''XREST '' @ EncodeToString p (Username s @ '':'' @ key)))))"

text \<open>The headers that \<^verbatim>\<open>prepareHeaders\<close> sets from a fetching info that is not nil.\<close>

definition infoHeaders :: "'d platform \<Rightarrow> Request \<Rightarrow> FetchingInfo \<Rightarrow> Request" where
  "infoHeaders p request info =
     (let r1 = (if Filter info \<noteq> [] then HeaderSet request ''X-Nuage-Filter'' (Filter info)
                else request);
          r2 = (if OrderBy info \<noteq> [] then HeaderSet r1 ''X-Nuage-OrderBy'' (OrderBy info)
                else r1);
          r3 = (if Page info \<noteq> - 1 then HeaderSet r2 ''X-Nuage-Page'' (Itoa p (Page info))
                else r2);
          r4 = (if PageSize info > 0
                then HeaderSet r3 ''X-Nuage-PageSize'' (Itoa p (PageSize info)) else r3)
      in if length (GroupBy info) > 0
         then HeaderSet (HeaderSet r4 ''X-Nuage-GroupBy'' ''true'')
                ''X-Nuage-Attributes'' (Join (GroupBy info) '', '')
         else r4)"

text \<open>
  \<^verbatim>\<open>prepareHeaders\<close> writes the transport of the session's client and the headers of the
  request in place; the model returns its error, the request and the world as it leaves
  them. In password mode a failure of \<^verbatim>\<open>makeAuthorizationHeaders\<close> returns before any
  header is set.
\<close>

definition prepareHeaders ::
  "'d platform \<Rightarrow> Session \<Rightarrow> Request \<Rightarrow> FetchingInfo option \<Rightarrow> world
     \<Rightarrow> Error option \<times> Request \<times> world" where
  "prepareHeaders p s request info w =
     (let certs = (case Certificate s of Some cert \<Rightarrow> [cert] | None \<Rightarrow> []);
          w1 = w\<lparr>transports := (transports w)
                 (client s := Some \<lparr>Certificates = certs, InsecureSkipVerify = True\<rparr>)\<rparr>;
          auth = (case Certificate s of
                    Some cert \<Rightarrow> Inr request
                  | None \<Rightarrow>
                      (case makeAuthorizationHeaders p s w1 of
                         Inl err \<Rightarrow> Inl err
                       | Inr authString \<Rightarrow>
                           Inr (HeaderSet (HeaderSet request ''Authorization'' authString)
                                  ''X-Nuage-Organization'' (Organization s))))
      in case auth of
           Inl err \<Rightarrow> (Some err, request, w1)
         | Inr r1 \<Rightarrow>
             (let r2 = HeaderSet (HeaderSet r1 ''X-Nuage-PageSize'' ''50'')
                         ''Content-Type'' ''application/json''
              in case info of
                   None \<Rightarrow> (None, r2, w1)
                 | Some i \<Rightarrow> (None, infoHeaders p r2 i, w1)))"

definition readHeaders :: "'d platform \<Rightarrow> Response \<Rightarrow> FetchingInfo option \<Rightarrow> FetchingInfo option" where
  "readHeaders p response info =
     (case info of
        None \<Rightarrow> None
      | Some i \<Rightarrow>
          Some (i\<lparr>Filter := HeaderGet response ''X-Nuage-Filter'',
                  FilterType := HeaderGet response ''X-Nuage-FilterType'',
                  OrderBy := HeaderGet response ''X-Nuage-OrderBy'',
                  Page := Atoi p (HeaderGet response ''X-Nuage-Page''),
                  PageSize := Atoi p (HeaderGet response ''X-Nuage-PageSize''),
                  TotalCount := Atoi p (HeaderGet response ''X-Nuage-Count'')\<rparr>))"

subsection \<open>send\<close>

text \<open>
  \<^verbatim>\<open>send\<close> drops the error of \<^verbatim>\<open>prepareHeaders\<close>, dispatches the request and branches on
  the status. On 300 it builds a request for the URL with \<^verbatim>\<open>?responseChoice=1\<close> appended,
  from the method and from \<^verbatim>\<open>request.Body\<close>, the reader that the dispatch has just read to
  its end; it drops the error of \<^verbatim>\<open>http.NewRequest\<close> and calls itself: when \<^verbatim>\<open>NewRequest\<close>
  fails the request is nil and the recursive call dereferences it. The recursion has no bound, so
  \<open>send\<close> is a partial function: \<open>None\<close> means that the call does not return.
\<close>

partial_function (option) send ::
  "'d platform \<Rightarrow> Session \<Rightarrow> Request \<Rightarrow> FetchingInfo option \<Rightarrow> world
     \<Rightarrow> (Response result \<times> FetchingInfo option \<times> world) option" where
  "send p s request info w =
     (case prepareHeaders p s request info w of
        (_, request1, w1) \<Rightarrow>
          (let w2 = w1\<lparr>sent := sent w1 @ [request1]\<rparr> in
           case Do p (sent w1) request1 of
             Inl err \<Rightarrow> Some (Fail (NewBambouError [] err), info, w2)
           | Inr response \<Rightarrow>
               if StatusCode response = 200 \<or> StatusCode response = 201
                  \<or> StatusCode response = 204 then
                 Some (Ok response, readHeaders p response info, w2)
               else if StatusCode response = 300 then
                 (case NewRequest p (Method request1)
                         (reqURL request1 @ ''?responseChoice=1'')
                         (consumed (reqBody request1)) of
                    Inl _ \<Rightarrow> Some (Panic NilDereference, info, w2)
                  | Inr request2 \<Rightarrow> send p s request2 info w2)
               else if StatusCode response = 409 \<or> StatusCode response = 404 then
                 (case UnmarshalErrors p (Body response) of
                    Inl err \<Rightarrow> Some (Fail (NewBambouError [] err), info, w2)
                  | Inr vsdresp \<Rightarrow>
                      (case VsdErrors vsdresp of
                         [] \<Rightarrow> Some (Panic IndexOutOfRange, info, w2)
                       | e0 # _ \<Rightarrow>
                           (case Descriptions e0 of
                              [] \<Rightarrow> Some (Panic IndexOutOfRange, info, w2)
                            | d0 # _ \<Rightarrow>
                                Some (Fail (NewBambouError (Title d0) (Description d0)),
                                      info, w2))))
               else Some (Fail (NewBambouError [] (Status response)), info, w2)))"

subsection \<open>URL resolution\<close>

definition getGeneralURL :: "Session \<Rightarrow> Identifiable \<Rightarrow> string" where
  "getGeneralURL s obj = URL s @ ''/'' @ Category (identity obj)"

definition getPersonalURL :: "Session \<Rightarrow> Identifiable \<Rightarrow> Error + string" where
  "getPersonalURL s obj =
     (if isRootable obj then Inr (URL s @ ''/'' @ Name (identity obj))
      else if Identifier obj = [] then
        Inl (NewBambouError ''VSD error'' ''Cannot GetPersonalURL of an object with no ID set'')
      else Inr (getGeneralURL s obj @ ''/'' @ Identifier obj))"

definition getURLForChildrenIdentity :: "Session \<Rightarrow> Identifiable \<Rightarrow> Identity \<Rightarrow> Error + string" where
  "getURLForChildrenIdentity s obj childrenIdentity =
     (if isRootable obj then Inr (URL s @ ''/'' @ Category childrenIdentity)
      else case getPersonalURL s obj of
        Inl berr \<Rightarrow> Inl berr
      | Inr url \<Rightarrow> Inr (url @ ''/'' @ Category childrenIdentity))"

subsection \<open>Operations of a session\<close>

text \<open>
  Objects are passed by address, as the Go interfaces hold pointers: an operation reads the
  object in the world and a decode writes it back. Interface arguments are not nil; the
  root of a session may be, and calling a method on it then panics.
\<close>

definition FetchEntity ::
  "'d platform \<Rightarrow> Session \<Rightarrow> nat \<Rightarrow> world \<Rightarrow> (unit result \<times> world) option" where
  "FetchEntity p s object w =
     (case getPersonalURL s (objects w object) of
        Inl berr \<Rightarrow> Some (Fail berr, w)
      | Inr url \<Rightarrow>
          (case NewRequest p ''GET'' url None of
             Inl err \<Rightarrow> Some (Fail (NewBambouError [] err), w)
           | Inr request \<Rightarrow>
               (case send p s request None w of
                  None \<Rightarrow> None
                | Some (res, _, w1) \<Rightarrow>
                    (case res of
                       Fail berr \<Rightarrow> Some (Fail berr, w1)
                     | Panic k \<Rightarrow> Some (Panic k, w1)
                     | Ok response \<Rightarrow>
                         (case UnmarshalEntity p (Body response) (objects w1 object) of
                            (err, obj) \<Rightarrow>
                              (let w2 = w1\<lparr>objects := (objects w1)(object := obj)\<rparr> in
                               case err of
                                 Some e \<Rightarrow> Some (Fail (NewBambouError [] e), w2)
                               | None \<Rightarrow> Some (Ok (), w2)))))))"

definition SaveEntity ::
  "'d platform \<Rightarrow> Session \<Rightarrow> nat \<Rightarrow> world \<Rightarrow> (unit result \<times> world) option" where
  "SaveEntity p s object w =
     (case getPersonalURL s (objects w object) of
        Inl berr \<Rightarrow> Some (Fail berr, w)
      | Inr url \<Rightarrow>
          (case EncodeEntity p (objects w object) of
             Inl err \<Rightarrow> Some (Fail (NewBambouError [] err), w)
           | Inr buffer \<Rightarrow>
               (case NewRequest p ''PUT'' url (Some buffer) of
                  Inl err \<Rightarrow> Some (Fail (NewBambouError [] err), w)
                | Inr request \<Rightarrow>
                    (case send p s request None w of
                       None \<Rightarrow> None
                     | Some (res, _, w1) \<Rightarrow>
                         (case res of
                            Fail berr \<Rightarrow> Some (Fail berr, w1)
                          | Panic k \<Rightarrow> Some (Panic k, w1)
                          | Ok response \<Rightarrow>
                              (case UnmarshalEntity p (Body response) (objects w1 object) of
                                 (err, obj) \<Rightarrow>
                                   (let w2 = w1\<lparr>objects := (objects w1)(object := obj)\<rparr> in
                                    case err of
                                      Some e \<Rightarrow> Some (Fail (NewBambouError [] e), w2)
                                    | None \<Rightarrow> Some (Ok (), w2))))))))"

definition DeleteEntity ::
  "'d platform \<Rightarrow> Session \<Rightarrow> nat \<Rightarrow> world \<Rightarrow> (unit result \<times> world) option" where
  "DeleteEntity p s object w =
     (case getPersonalURL s (objects w object) of
        Inl berr \<Rightarrow> Some (Fail berr, w)
      | Inr url \<Rightarrow>
          (case NewRequest p ''DELETE'' url None of
             Inl err \<Rightarrow> Some (Fail (NewBambouError [] err), w)
           | Inr request \<Rightarrow>
               (case send p s request None w of
                  None \<Rightarrow> None
                | Some (res, _, w1) \<Rightarrow>
                    (case res of
                       Fail berr \<Rightarrow> Some (Fail berr, w1)
                     | Panic k \<Rightarrow> Some (Panic k, w1)
                     | Ok response \<Rightarrow> Some (Ok (), w1)))))"

text \<open>
  \<^verbatim>\<open>FetchChildren\<close> returns, besides its result, the destination and the fetching info as
  the call leaves them.
\<close>

definition FetchChildren ::
  "'d platform \<Rightarrow> Session \<Rightarrow> nat \<Rightarrow> Identity \<Rightarrow> 'd \<Rightarrow> FetchingInfo option \<Rightarrow> world
     \<Rightarrow> (unit result \<times> 'd \<times> FetchingInfo option \<times> world) option" where
  "FetchChildren p s parent ident dest info w =
     (case getURLForChildrenIdentity s (objects w parent) ident of
        Inl berr \<Rightarrow> Some (Fail berr, dest, info, w)
      | Inr url \<Rightarrow>
          (case NewRequest p ''GET'' url None of
             Inl err \<Rightarrow> Some (Fail (NewBambouError [] err), dest, info, w)
           | Inr request \<Rightarrow>
               (case send p s request info w of
                  None \<Rightarrow> None
                | Some (res, info1, w1) \<Rightarrow>
                    (case res of
                       Fail berr \<Rightarrow> Some (Fail berr, dest, info1, w1)
                     | Panic k \<Rightarrow> Some (Panic k, dest, info1, w1)
                     | Ok response \<Rightarrow>
                         if StatusCode response = 204 \<or> ContentLength response = 0 then
                           Some (Ok (), dest, info1, w1)
                         else
                           (case UnmarshalDest p (Body response) dest of
                              (err, dest1) \<Rightarrow>
                                (case err of
                                   Some e \<Rightarrow> Some (Fail (NewBambouError [] e), dest1, info1, w1)
                                 | None \<Rightarrow> Some (Ok (), dest1, info1, w1)))))))"

definition CreateChild ::
  "'d platform \<Rightarrow> Session \<Rightarrow> nat \<Rightarrow> nat \<Rightarrow> world \<Rightarrow> (unit result \<times> world) option" where
  "CreateChild p s parent child w =
     (case getURLForChildrenIdentity s (objects w parent) (identity (objects w child)) of
        Inl berr \<Rightarrow> Some (Fail berr, w)
      | Inr url \<Rightarrow>
          (case EncodeEntity p (objects w child) of
             Inl err \<Rightarrow> Some (Fail (NewBambouError [] err), w)
           | Inr buffer \<Rightarrow>
               (case NewRequest p ''POST'' url (Some buffer) of
                  Inl err \<Rightarrow> Some (Fail (NewBambouError [] err), w)
                | Inr request \<Rightarrow>
                    (case send p s request None w of
                       None \<Rightarrow> None
                     | Some (res, _, w1) \<Rightarrow>
                         (case res of
                            Fail berr \<Rightarrow> Some (Fail berr, w1)
                          | Panic k \<Rightarrow> Some (Panic k, w1)
                          | Ok response \<Rightarrow>
                              (case UnmarshalEntity p (Body response) (objects w1 child) of
                                 (err, obj) \<Rightarrow>
                                   (let w2 = w1\<lparr>objects := (objects w1)(child := obj)\<rparr> in
                                    case err of
                                      Some e \<Rightarrow> Some (Fail (NewBambouError [] e), w2)
                                    | None \<Rightarrow> Some (Ok (), w2))))))))"

text \<open>The loop of \<^verbatim>\<open>AssignChildren\<close> over the children, with \<open>ids\<close> collected so far.\<close>

fun collectIDs :: "Identifiable list \<Rightarrow> string list \<Rightarrow> Error + string list" where
  "collectIDs [] ids = Inr ids"
| "collectIDs (c # cs) ids =
     (if Identifier c \<noteq> [] then collectIDs cs (ids @ [Identifier c])
      else Inl (NewBambouError ''VSD Error'' ''One of the object to assign has no ID''))"

definition AssignChildren ::
  "'d platform \<Rightarrow> Session \<Rightarrow> nat \<Rightarrow> nat list \<Rightarrow> Identity \<Rightarrow> world
     \<Rightarrow> (unit result \<times> world) option" where
  "AssignChildren p s parent children ident w =
     (case getURLForChildrenIdentity s (objects w parent) ident of
        Inl berr \<Rightarrow> Some (Fail berr, w)
      | Inr url \<Rightarrow>
          (case collectIDs (map (objects w) children) [] of
             Inl berr \<Rightarrow> Some (Fail berr, w)
           | Inr ids \<Rightarrow>
               (case NewRequest p ''PUT'' url (Some (EncodeIDs p ids)) of
                  Inl err \<Rightarrow> Some (Fail (NewBambouError [] err), w)
                | Inr request \<Rightarrow>
                    (case send p s request None w of
                       None \<Rightarrow> None
                     | Some (res, _, w1) \<Rightarrow>
                         (case res of
                            Fail berr \<Rightarrow> Some (Fail berr, w1)
                          | Panic k \<Rightarrow> Some (Panic k, w1)
                          | Ok response \<Rightarrow> Some (Ok (), w1))))))"

text \<open>
  \<^verbatim>\<open>Start\<close> assigns \<^verbatim>\<open>currentSession\<close> and then fetches the root. With a nil root the fetch
  calls \<^verbatim>\<open>Identifier()\<close> on a nil interface (the type assertion to \<^verbatim>\<open>Rootable\<close> fails on nil
  without a panic), after the assignment.
\<close>

definition Start :: "'d platform \<Rightarrow> Session \<Rightarrow> world \<Rightarrow> (unit result \<times> world) option" where
  "Start p s w =
     (let w1 = w\<lparr>currentSession := Some s\<rparr> in
      case root s of
        None \<Rightarrow> Some (Panic NilDereference, w1)
      | Some r \<Rightarrow> FetchEntity p s r w1)"

text \<open>
  \<^verbatim>\<open>Reset\<close> calls \<^verbatim>\<open>SetAPIKey("")\<close> on the root and then clears \<^verbatim>\<open>currentSession\<close>. With a nil
  root the method call panics before the assignment.
\<close>

definition Reset :: "Session \<Rightarrow> world \<Rightarrow> unit result \<times> world" where
  "Reset s w =
     (case root s of
        None \<Rightarrow> (Panic NilDereference, w)
      | Some r \<Rightarrow>
          (let w1 = w\<lparr>objects := (objects w)(r := SetAPIKey (objects w r) [])\<rparr> in
           (Ok (), w1\<lparr>currentSession := None\<rparr>)))"

subsection \<open>Notions used to state properties\<close>

text \<open>
  The request that \<^verbatim>\<open>send\<close> hands to \<^verbatim>\<open>client.Do\<close> is the one \<^verbatim>\<open>prepareHeaders\<close> leaves, and
  the world after the dispatch has it at the end of the log.
\<close>

definition dispatched ::
  "'d platform \<Rightarrow> Session \<Rightarrow> Request \<Rightarrow> FetchingInfo option \<Rightarrow> world \<Rightarrow> Request" where
  "dispatched p s request info w = fst (snd (prepareHeaders p s request info w))"

definition afterDispatch ::
  "'d platform \<Rightarrow> Session \<Rightarrow> Request \<Rightarrow> FetchingInfo option \<Rightarrow> world \<Rightarrow> world" where
  "afterDispatch p s request info w =
     (let w1 = snd (snd (prepareHeaders p s request info w))
      in w1\<lparr>sent := sent w1 @ [dispatched p s request info w]\<rparr>)"

text \<open>The first description of the first error group of a decoded 404 or 409 body.\<close>

definition firstDescription :: "VsdErrorList \<Rightarrow> Error option" where
  "firstDescription v =
     (case VsdErrors v of
        [] \<Rightarrow> None
      | e0 # _ \<Rightarrow> (case Descriptions e0 of [] \<Rightarrow> None | d0 # _ \<Rightarrow> Some d0))"

text \<open>
  The request that \<^verbatim>\<open>send\<close> builds on a 300 when \<^verbatim>\<open>http.NewRequest\<close> accepts the URL: the
  method of the request, the URL with \<^verbatim>\<open>?responseChoice=1\<close> appended, the body reader of the
  request as the dispatch has left it, fresh headers.
\<close>

definition reissue :: "Request \<Rightarrow> Request" where
  "reissue request =
     \<lparr>Method = Method request, reqURL = reqURL request @ ''?responseChoice=1'',
      reqBody = consumed (reqBody request), reqHeader = Map.empty\<rparr>"


subsection \<open>Concrete sessions, objects and platforms\<close>

text \<open>
  A root object, a stored enterprise and an object that has no identifier yet, at the
  addresses 0, 1 and from 2 on; a password session on them, the same session without a
  root; a platform whose network and error decoder are given, the rest being fixed.
\<close>

definition exampleRoot :: Identifiable where
  "exampleRoot = \<lparr>identity = \<lparr>Name = ''me'', Category = ''me''\<rparr>, Identifier = ''r1'',
     isRootable = True, APIKey = ''token''\<rparr>"

definition exampleEnterprise :: Identifiable where
  "exampleEnterprise = \<lparr>identity = \<lparr>Name = ''enterprise'', Category = ''enterprises''\<rparr>,
     Identifier = ''42'', isRootable = False, APIKey = []\<rparr>"

definition exampleUnsaved :: Identifiable where
  "exampleUnsaved = \<lparr>identity = \<lparr>Name = ''user'', Category = ''users''\<rparr>,
     Identifier = [], isRootable = False, APIKey = []\<rparr>"

definition exampleWorld :: world where
  "exampleWorld = \<lparr>currentSession = None,
     objects = (\<lambda>a. if a = 0 then exampleRoot else if a = 1 then exampleEnterprise
                    else exampleUnsaved),
     transports = (\<lambda>_. None), sent = []\<rparr>"

definition exampleSession :: Session where
  "exampleSession = NewSession ''csproot'' ''secret'' ''csp'' ''https://vsd/api'' (Some 0) 0"

definition exampleNoRoot :: Session where
  "exampleNoRoot = NewSession ''csproot'' ''secret'' ''csp'' ''https://vsd/api'' None 0"

definition exampleResponse :: "int \<Rightarrow> string \<Rightarrow> Response" where
  "exampleResponse code body = \<lparr>StatusCode = code, Status = ''status'', Header = Map.empty,
     Body = body, ContentLength = int (length body)\<rparr>"

definition examplePlatform ::
  "(Request list \<Rightarrow> Request \<Rightarrow> string + Response) \<Rightarrow> (string \<Rightarrow> string + VsdErrorList)
     \<Rightarrow> string list platform" where
  "examplePlatform net dec =
     \<lparr>EncodeToString = (\<lambda>x. x), Itoa = (\<lambda>_. ''0''), Atoi = (\<lambda>_. 0), ParseURL = (\<lambda>_. None),
      Do = net, UnmarshalErrors = dec, UnmarshalEntity = (\<lambda>body obj. (None, obj)),
      UnmarshalDest = (\<lambda>body dest. (None, [body])),
      EncodeEntity = (\<lambda>obj. Inr (Identifier obj)), EncodeIDs = (\<lambda>ids. Join ids '','')\<rparr>"

definition refusing :: "Request list \<Rightarrow> Request \<Rightarrow> string + Response" where
  "refusing history request = Inl ''connection refused''"

definition undecodable :: "string \<Rightarrow> string + VsdErrorList" where
  "undecodable body = Inl ''unexpected end of JSON input''"

text \<open>
  A network that answers the n-th request with the n-th response of a script, and an error
  decoder for four bodies.
\<close>

definition answering :: "Response list \<Rightarrow> Request list \<Rightarrow> Request \<Rightarrow> string + Response" where
  "answering script history request =
     (if length history < length script then Inr (script ! length history)
      else Inl ''connection refused'')"

definition exampleRequest :: Request where
  "exampleRequest = \<lparr>Method = ''GET'', reqURL = ''https://vsd/api/enterprises'',
     reqBody = None, reqHeader = Map.empty\<rparr>"

definition errorBody :: string where
  \<open>errorBody = ''{"errors":[{"descriptions":[{"title":"T","description":"D"}]}]}''\<close>

definition noErrorsBody :: string where
  \<open>noErrorsBody = ''{"errors":[]}''\<close>

definition noDescriptionsBody :: string where
  \<open>noDescriptionsBody = ''{"errors":[{"descriptions":[]}]}''\<close>

definition credentialsBody :: string where
  \<open>credentialsBody =
     ''{"errors":[{"descriptions":[{"title":"Invalid Credentials","description":"denied"}]}]}''\<close>

definition decoding :: "string \<Rightarrow> string + VsdErrorList" where
  "decoding body =
     (if body = errorBody then
        Inr \<lparr>VsdErrors = [\<lparr>Descriptions = [\<lparr>Title = ''T'', Description = ''D''\<rparr>]\<rparr>]\<rparr>
      else if body = noErrorsBody then Inr \<lparr>VsdErrors = []\<rparr>
      else if body = noDescriptionsBody then Inr \<lparr>VsdErrors = [\<lparr>Descriptions = []\<rparr>]\<rparr>
      else if body = credentialsBody then
        Inr \<lparr>VsdErrors = [\<lparr>Descriptions =
              [\<lparr>Title = ''Invalid Credentials'', Description = ''denied''\<rparr>]\<rparr>]\<rparr>
      else Inl ''invalid character'')"

section \<open>Properties\<close>

lemmas ex_defs = examplePlatform_def answering_def exampleResponse_def exampleWorld_def
  exampleSession_def exampleNoRoot_def NewSession_def exampleRequest_def exampleRoot_def
  exampleEnterprise_def exampleUnsaved_def refusing_def undecodable_def

lemmas body_defs = errorBody_def noErrorsBody_def noDescriptionsBody_def credentialsBody_def

lemmas op_defs = FetchEntity_def SaveEntity_def DeleteEntity_def FetchChildren_def
  CreateChild_def AssignChildren_def getPersonalURL_def getGeneralURL_def
  getURLForChildrenIdentity_def NewRequest_def

subsection \<open>Headers, dispatch and frame lemmas\<close>


lemma HeaderSet_fields [simp]:
  "Method (HeaderSet r k v) = Method r"
  "reqURL (HeaderSet r k v) = reqURL r"
  "reqBody (HeaderSet r k v) = reqBody r"
  by (simp_all add: HeaderSet_def)

lemma infoHeaders_fields [simp]:
  "Method (infoHeaders p r i) = Method r"
  "reqURL (infoHeaders p r i) = reqURL r"
  "reqBody (infoHeaders p r i) = reqBody r"
  by (simp_all add: infoHeaders_def Let_def)

lemma prepareHeaders_world:
  "snd (snd (prepareHeaders p s request info w)) =
     w\<lparr>transports := (transports w)(client s := Some \<lparr>Certificates =
         (case Certificate s of Some cert \<Rightarrow> [cert] | None \<Rightarrow> []), InsecureSkipVerify = True\<rparr>)\<rparr>"
  by (simp add: prepareHeaders_def Let_def split: option.splits sum.splits)

lemma dispatched_fields [simp]:
  "Method (dispatched p s request info w) = Method request"
  "reqURL (dispatched p s request info w) = reqURL request"
  "reqBody (dispatched p s request info w) = reqBody request"
  by (auto simp add: dispatched_def prepareHeaders_def Let_def split: option.splits sum.splits)

lemma afterDispatch_fields [simp]:
  "sent (afterDispatch p s request info w) = sent w @ [dispatched p s request info w]"
  "currentSession (afterDispatch p s request info w) = currentSession w"
  "objects (afterDispatch p s request info w) = objects w"
  by (simp_all add: afterDispatch_def Let_def prepareHeaders_world)

lemma send_unfold:
  "send p s request info w =
     (let request1 = dispatched p s request info w;
          w2 = afterDispatch p s request info w in
      case Do p (sent w) request1 of
        Inl err \<Rightarrow> Some (Fail (NewBambouError [] err), info, w2)
      | Inr response \<Rightarrow>
          if StatusCode response = 200 \<or> StatusCode response = 201
             \<or> StatusCode response = 204 then
            Some (Ok response, readHeaders p response info, w2)
          else if StatusCode response = 300 then
            (case NewRequest p (Method request) (reqURL request @ ''?responseChoice=1'')
                    (consumed (reqBody request)) of
               Inl _ \<Rightarrow> Some (Panic NilDereference, info, w2)
             | Inr request2 \<Rightarrow> send p s request2 info w2)
          else if StatusCode response = 409 \<or> StatusCode response = 404 then
            (case UnmarshalErrors p (Body response) of
               Inl err \<Rightarrow> Some (Fail (NewBambouError [] err), info, w2)
             | Inr vsdresp \<Rightarrow>
                 (case VsdErrors vsdresp of
                    [] \<Rightarrow> Some (Panic IndexOutOfRange, info, w2)
                  | e0 # _ \<Rightarrow>
                      (case Descriptions e0 of
                         [] \<Rightarrow> Some (Panic IndexOutOfRange, info, w2)
                       | d0 # _ \<Rightarrow>
                           Some (Fail (NewBambouError (Title d0) (Description d0)),
                                 info, w2))))
          else Some (Fail (NewBambouError [] (Status response)), info, w2))"
proof -
  obtain e request1 w1 where ph: "prepareHeaders p s request info w = (e, request1, w1)"
    by (cases "prepareHeaders p s request info w") auto
  have d: "dispatched p s request info w = request1"
    by (simp add: dispatched_def ph)
  have a: "afterDispatch p s request info w = w1\<lparr>sent := sent w1 @ [request1]\<rparr>"
    by (simp add: afterDispatch_def d ph)
  have sw: "sent w1 = sent w"
    using prepareHeaders_world [of p s request info w] by (simp add: ph)
  have f: "Method request1 = Method request" "reqURL request1 = reqURL request"
    "reqBody request1 = reqBody request"
    using dispatched_fields [of p s request info w] by (simp_all add: d)
  show ?thesis
    by (subst send.simps) (simp add: ph d a sw f Let_def split: sum.split list.split)
qed



lemma send_frame:
  assumes "send p s request info w = Some y"
  shows "currentSession (snd (snd y)) = currentSession w \<and>
         objects (snd (snd y)) = objects w \<and>
         (\<exists>rest. sent (snd (snd y)) = sent w @ dispatched p s request info w # rest)"
proof (rule send.raw_induct [where P = "\<lambda>p s request info w y.
    currentSession (snd (snd y)) = currentSession w \<and> objects (snd (snd y)) = objects w \<and>
    (\<exists>rest. sent (snd (snd y)) = sent w @ dispatched p s request info w # rest)", OF _ assms],
    goal_cases)
  case (1 send p s request info w y)
  obtain e request1 w1 where ph: "prepareHeaders p s request info w = (e, request1, w1)"
    by (cases "prepareHeaders p s request info w") auto
  have d: "dispatched p s request info w = request1"
    by (simp add: dispatched_def ph)
  have w1: "currentSession w1 = currentSession w" "objects w1 = objects w" "sent w1 = sent w"
    using prepareHeaders_world [of p s request info w] by (simp_all add: ph)
  show ?case
  proof (cases "Do p (sent w) request1")
    case (Inl err)
    with 1(2) show ?thesis by (auto simp add: ph d w1 Let_def)
  next
    case (Inr response)
    show ?thesis
    proof (cases "StatusCode response = 300")
      case False
      with 1(2) Inr show ?thesis
        by (auto simp add: ph d w1 Let_def split: if_splits sum.splits list.splits)
    next
      case True
      show ?thesis
      proof (cases "NewRequest p (Method request1) (reqURL request1 @ ''?responseChoice=1'')
                      (consumed (reqBody request1))")
        case (Inl err)
        with 1(2) Inr True show ?thesis by (auto simp add: ph d w1 Let_def)
      next
        case r2: (Inr request2)
        from 1(2) Inr True r2
        have "send p s request2 info (w1\<lparr>sent := sent w1 @ [request1]\<rparr>) = Some y"
          by (simp add: ph w1 Let_def)
        from 1(1) [OF this] show ?thesis
          by (auto simp add: d w1)
      qed
    qed
  qed
qed


lemma NewRequest_reissue:
  "ParseURL p (reqURL request @ ''?responseChoice=1'') = None \<Longrightarrow>
   NewRequest p (Method request) (reqURL request @ ''?responseChoice=1'')
       (consumed (reqBody request)) = Inr (reissue request)"
  by (simp add: NewRequest_def reissue_def)


lemma send_ends_unless_300:
  assumes "\<And>response. Do p (sent w) (dispatched p s request info w) = Inr response
             \<Longrightarrow> StatusCode response \<noteq> 300"
  shows "\<exists>res i. send p s request info w = Some (res, i, afterDispatch p s request info w) \<and>
           ((\<forall>response v. Do p (sent w) (dispatched p s request info w) = Inr response \<and>
                (StatusCode response = 404 \<or> StatusCode response = 409) \<and>
                UnmarshalErrors p (Body response) = Inr v \<longrightarrow> firstDescription v \<noteq> None)
            \<longrightarrow> (\<forall>k. res \<noteq> Panic k))"
  using assms
  by (subst send_unfold)
    (auto simp add: Let_def firstDescription_def split: sum.splits list.splits)

subsection \<open>C1: the personal URL\<close>

text \<open>
  Claim C1. For an object that is not Rootable and has a non-empty identifier,
  \<open>getPersonalURL\<close> returns the general URL (the base URL, a slash and the category of the
  identity), a slash and the identifier. For a Rootable object it returns the base URL, a
  slash and the name of the identity, whatever the identifier. For an object that is not
  Rootable and has an empty identifier it returns the "no ID set" error and no URL.
\<close>

theorem getPersonalURL_shapes:
  "(\<not> isRootable obj \<and> Identifier obj \<noteq> [] \<longrightarrow>
      getGeneralURL s obj = URL s @ ''/'' @ Category (identity obj) \<and>
      getPersonalURL s obj = Inr (getGeneralURL s obj @ ''/'' @ Identifier obj)) \<and>
   (isRootable obj \<longrightarrow> getPersonalURL s obj = Inr (URL s @ ''/'' @ Name (identity obj))) \<and>
   (\<not> isRootable obj \<and> Identifier obj = [] \<longrightarrow>
      getPersonalURL s obj =
        Inl (NewBambouError ''VSD error'' ''Cannot GetPersonalURL of an object with no ID set''))"
  by (simp add: getPersonalURL_def getGeneralURL_def)

theorem getPersonalURL_shapes_witness:
  "getPersonalURL exampleSession exampleEnterprise = Inr ''https://vsd/api/enterprises/42'' \<and>
   getPersonalURL exampleSession exampleRoot = Inr ''https://vsd/api/me'' \<and>
   getPersonalURL exampleSession (exampleRoot\<lparr>Identifier := []\<rparr>) = Inr ''https://vsd/api/me'' \<and>
   getPersonalURL exampleSession exampleUnsaved =
     Inl \<lparr>Title = ''VSD error'',
          Description = ''Cannot GetPersonalURL of an object with no ID set''\<rparr>"
  using getPersonalURL_shapes [of exampleEnterprise exampleSession]
    getPersonalURL_shapes [of exampleRoot exampleSession]
    getPersonalURL_shapes [of "exampleRoot\<lparr>Identifier := []\<rparr>" exampleSession]
    getPersonalURL_shapes [of exampleUnsaved exampleSession]
  by (simp add: exampleEnterprise_def exampleRoot_def exampleUnsaved_def exampleSession_def
      NewSession_def NewBambouError_def)

subsection \<open>C2: the authorization header\<close>

text \<open>
  Claim C2. \<open>makeAuthorizationHeaders\<close> returns an "Invalid Credentials" error exactly when
  the username is empty, the root is nil, or the password and the API key of the root are
  both empty. Otherwise it returns \<^verbatim>\<open>"XREST "\<close> followed by the base64 encoding of the
  username, a colon and the secret, the secret being the API key of the root when that is
  non-empty and the password otherwise. The function does not read the certificate, so
  this holds for password-mode sessions in particular.
\<close>

theorem makeAuthorizationHeaders_result:
  "makeAuthorizationHeaders p s w =
     (if Username s = [] \<or> root s = None \<or>
         (\<exists>r. root s = Some r \<and> Password s = [] \<and> APIKey (objects w r) = [])
      then Inl (NewBambouError ''Invalid Credentials''
             (if Username s = [] then ''No username given''
              else if root s = None then ''No root user set''
              else ''No password or authentication token given''))
      else Inr (''XREST '' @ EncodeToString p (Username s @ '':'' @
             (case root s of
                Some r \<Rightarrow> if APIKey (objects w r) \<noteq> [] then APIKey (objects w r)
                          else Password s
              | None \<Rightarrow> Password s))))"
  by (auto simp add: makeAuthorizationHeaders_def Let_def split: option.splits)

theorem makeAuthorizationHeaders_result_witness:
  "makeAuthorizationHeaders (examplePlatform refusing undecodable) exampleSession exampleWorld =
     Inr ''XREST csproot:token'' \<and>
   makeAuthorizationHeaders (examplePlatform refusing undecodable) exampleSession
     (exampleWorld\<lparr>objects := (\<lambda>_. exampleUnsaved)\<rparr>) = Inr ''XREST csproot:secret'' \<and>
   makeAuthorizationHeaders (examplePlatform refusing undecodable) exampleNoRoot exampleWorld =
     Inl \<lparr>Title = ''Invalid Credentials'', Description = ''No root user set''\<rparr> \<and>
   makeAuthorizationHeaders (examplePlatform refusing undecodable) (exampleSession\<lparr>Username := []\<rparr>)
     exampleWorld =
     Inl \<lparr>Title = ''Invalid Credentials'', Description = ''No username given''\<rparr> \<and>
   makeAuthorizationHeaders (examplePlatform refusing undecodable) (exampleSession\<lparr>Password := []\<rparr>)
     (exampleWorld\<lparr>objects := (\<lambda>_. exampleUnsaved)\<rparr>) =
     Inl \<lparr>Title = ''Invalid Credentials'',
          Description = ''No password or authentication token given''\<rparr>"
  using makeAuthorizationHeaders_result [of "examplePlatform refusing undecodable" exampleSession exampleWorld]
    makeAuthorizationHeaders_result [of "examplePlatform refusing undecodable" exampleSession
      "exampleWorld\<lparr>objects := (\<lambda>_. exampleUnsaved)\<rparr>"]
    makeAuthorizationHeaders_result [of "examplePlatform refusing undecodable" exampleNoRoot exampleWorld]
    makeAuthorizationHeaders_result [of "examplePlatform refusing undecodable"
      "exampleSession\<lparr>Username := []\<rparr>" exampleWorld]
    makeAuthorizationHeaders_result [of "examplePlatform refusing undecodable"
      "exampleSession\<lparr>Password := []\<rparr>" "exampleWorld\<lparr>objects := (\<lambda>_. exampleUnsaved)\<rparr>"]
  by (simp add: examplePlatform_def exampleSession_def exampleNoRoot_def exampleWorld_def
      exampleRoot_def exampleUnsaved_def NewSession_def NewBambouError_def)

subsection \<open>C3: the answer 300\<close>

text \<open>
  When every answer has status 300 and every URL is accepted, \<open>send\<close> does not return.
\<close>

lemma send_300_forever:
  assumes "\<And>h q. \<exists>r. Do p h q = Inr r \<and> StatusCode r = 300"
    and "\<And>u. ParseURL p u = None"
  shows "send p s request info w = None"
proof (rule ccontr)
  assume "send p s request info w \<noteq> None"
  then obtain y where y: "send p s request info w = Some y"
    by auto
  have "(\<forall>h q. \<exists>r. Do p h q = Inr r \<and> StatusCode r = 300) \<longrightarrow>
        (\<forall>u. ParseURL p u = None) \<longrightarrow> False"
  proof (rule send.raw_induct [where P = "\<lambda>p s request info w y.
      (\<forall>h q. \<exists>r. Do p h q = Inr r \<and> StatusCode r = 300) \<longrightarrow>
      (\<forall>u. ParseURL p u = None) \<longrightarrow> False", OF _ y], goal_cases)
    case (1 send p s request info w y)
    show ?case
    proof (intro impI)
      assume always: "\<forall>h q. \<exists>r. Do p h q = Inr r \<and> StatusCode r = 300"
        and accepts: "\<forall>u. ParseURL p u = None"
      obtain e request1 w1 where ph: "prepareHeaders p s request info w = (e, request1, w1)"
        by (cases "prepareHeaders p s request info w") auto
      from always obtain r where r: "Do p (sent w1) request1 = Inr r" "StatusCode r = 300"
        by blast
      from accepts have "NewRequest p (Method request1)
          (reqURL request1 @ ''?responseChoice=1'') (consumed (reqBody request1))
            = Inr (reissue request1)"
        by (simp add: NewRequest_reissue)
      with 1(2) r
      have "send p s (reissue request1) info (w1\<lparr>sent := sent w1 @ [request1]\<rparr>) = Some y"
        by (simp add: ph Let_def)
      from 1(1) [OF this] always accepts show False
        by blast
    qed
  qed
  with assms show False
    by blast
qed

text \<open>
  Claim C3 says that on a response with status 300 \<open>send\<close> reissues the request exactly once
  before it returns. The reissued request is handled by \<open>send\<close> itself, so a second 300
  is followed by a third request: with the answers 300, 300, 200 the call returns after
  three requests, the last to the URL with the suffix appended twice.
\<close>

theorem send_reissues_twice_counterexample:
  "Do (examplePlatform (answering [exampleResponse 300 [], exampleResponse 300 [],
          exampleResponse 200 []]) undecodable) (sent exampleWorld)
      (dispatched (examplePlatform (answering [exampleResponse 300 [], exampleResponse 300 [],
          exampleResponse 200 []]) undecodable) exampleSession exampleRequest None exampleWorld)
     = Inr (exampleResponse 300 []) \<and>
   StatusCode (exampleResponse 300 []) = 300 \<and>
   fst (the (send (examplePlatform (answering [exampleResponse 300 [], exampleResponse 300 [],
          exampleResponse 200 []]) undecodable) exampleSession exampleRequest None exampleWorld))
     = Ok (exampleResponse 200 []) \<and>
   map reqURL (sent (snd (snd (the (send (examplePlatform (answering [exampleResponse 300 [],
          exampleResponse 300 [], exampleResponse 200 []]) undecodable) exampleSession
          exampleRequest None exampleWorld)))))
     = [''https://vsd/api/enterprises'', ''https://vsd/api/enterprises?responseChoice=1'',
        ''https://vsd/api/enterprises?responseChoice=1?responseChoice=1'']"
  by (simp add: send_unfold Let_def NewRequest_def ex_defs)

text \<open>
  The body that the reissued request carries is the reader that the first dispatch has
  read: a PUT with a body is reissued with nothing left to send.
\<close>

lemma send_reissue_body_example:
  "map reqBody (sent (snd (snd (the (send
      (examplePlatform (answering [exampleResponse 300 [], exampleResponse 200 []]) undecodable)
      exampleSession (exampleRequest\<lparr>Method := ''PUT'', reqBody := Some ''payload''\<rparr>) None
      exampleWorld))))) = [Some ''payload'', Some []]"
  by (simp add: send_unfold Let_def NewRequest_def consumed_def ex_defs)

text \<open>
  Claim C3, amended. When the response to a request has status 300 and \<^verbatim>\<open>http.NewRequest\<close>
  accepts the URL with \<^verbatim>\<open>?responseChoice=1\<close> appended, \<open>send\<close> continues as \<open>send\<close> on a
  request with the same method and that URL. When the answer to that request is not a
  response with status 300, the call ends having dispatched exactly the request and its
  one reissue; it ends by returning a response or an error to the caller, unless that
  answer is a 404 or 409 whose payload has no first description, on which \<open>send\<close> panics.
\<close>

theorem send_reissues_on_300:
  assumes "Do p (sent w) (dispatched p s request info w) = Inr response"
    and "StatusCode response = 300"
    and "ParseURL p (reqURL request @ ''?responseChoice=1'') = None"
  shows "send p s request info w =
           send p s (reissue request) info (afterDispatch p s request info w) \<and>
         Method (reissue request) = Method request \<and>
         reqURL (reissue request) = reqURL request @ ''?responseChoice=1'' \<and>
         ((\<forall>response2.
              Do p (sent w @ [dispatched p s request info w])
                (dispatched p s (reissue request) info (afterDispatch p s request info w))
                = Inr response2 \<longrightarrow> StatusCode response2 \<noteq> 300) \<longrightarrow>
          (\<exists>res i w'. send p s request info w = Some (res, i, w') \<and>
             sent w' = sent w @ [dispatched p s request info w,
               dispatched p s (reissue request) info (afterDispatch p s request info w)] \<and>
             ((\<forall>response2 v.
                  Do p (sent w @ [dispatched p s request info w])
                    (dispatched p s (reissue request) info (afterDispatch p s request info w))
                    = Inr response2 \<and>
                  (StatusCode response2 = 404 \<or> StatusCode response2 = 409) \<and>
                  UnmarshalErrors p (Body response2) = Inr v \<longrightarrow> firstDescription v \<noteq> None)
              \<longrightarrow> (\<forall>k. res \<noteq> Panic k))))"
proof -
  let ?w2 = "afterDispatch p s request info w"
  let ?q1 = "dispatched p s request info w"
  let ?q2 = "dispatched p s (reissue request) info ?w2"
  have step: "send p s request info w = send p s (reissue request) info ?w2"
    using assms by (subst send_unfold) (simp add: Let_def NewRequest_reissue)
  have fields: "Method (reissue request) = Method request"
    "reqURL (reissue request) = reqURL request @ ''?responseChoice=1''"
    by (simp_all add: reissue_def)
  have once: "\<exists>res i w'. send p s request info w = Some (res, i, w') \<and>
             sent w' = sent w @ [?q1, ?q2] \<and>
             ((\<forall>response2 v. Do p (sent w @ [?q1]) ?q2 = Inr response2 \<and>
                  (StatusCode response2 = 404 \<or> StatusCode response2 = 409) \<and>
                  UnmarshalErrors p (Body response2) = Inr v \<longrightarrow> firstDescription v \<noteq> None)
              \<longrightarrow> (\<forall>k. res \<noteq> Panic k))"
    if "\<forall>response2. Do p (sent w @ [?q1]) ?q2 = Inr response2 \<longrightarrow> StatusCode response2 \<noteq> 300"
  proof -
    from that have "\<And>response2. Do p (sent ?w2) ?q2 = Inr response2
        \<Longrightarrow> StatusCode response2 \<noteq> 300"
      by simp
    from send_ends_unless_300 [OF this] obtain res i where
      r: "send p s (reissue request) info ?w2
         = Some (res, i, afterDispatch p s (reissue request) info ?w2)"
      and np: "(\<forall>response2 v. Do p (sent ?w2) ?q2 = Inr response2 \<and>
                  (StatusCode response2 = 404 \<or> StatusCode response2 = 409) \<and>
                  UnmarshalErrors p (Body response2) = Inr v \<longrightarrow> firstDescription v \<noteq> None)
              \<longrightarrow> (\<forall>k. res \<noteq> Panic k)"
      by blast
    from r step have "send p s request info w
        = Some (res, i, afterDispatch p s (reissue request) info ?w2)"
      by simp
    moreover have "sent (afterDispatch p s (reissue request) info ?w2) = sent w @ [?q1, ?q2]"
      by simp
    moreover from np have "(\<forall>response2 v. Do p (sent w @ [?q1]) ?q2 = Inr response2 \<and>
                  (StatusCode response2 = 404 \<or> StatusCode response2 = 409) \<and>
                  UnmarshalErrors p (Body response2) = Inr v \<longrightarrow> firstDescription v \<noteq> None)
              \<longrightarrow> (\<forall>k. res \<noteq> Panic k)"
      by simp
    ultimately show ?thesis
      by blast
  qed
  from step fields once show ?thesis
    by (intro conjI impI) (assumption | blast)+
qed

theorem send_reissues_on_300_witness:
  "Do (examplePlatform (answering [exampleResponse 300 [], exampleResponse 404 errorBody])
         decoding) (sent exampleWorld)
      (dispatched (examplePlatform (answering [exampleResponse 300 [],
         exampleResponse 404 errorBody]) decoding) exampleSession exampleRequest None
         exampleWorld)
     = Inr (exampleResponse 300 []) \<and>
   StatusCode (exampleResponse 300 []) = 300 \<and>
   (\<exists>res i w'.
      send (examplePlatform (answering [exampleResponse 300 [], exampleResponse 404 errorBody])
          decoding) exampleSession exampleRequest None exampleWorld = Some (res, i, w') \<and>
      (\<forall>k. res \<noteq> Panic k) \<and>
      map reqURL (sent w') =
        [''https://vsd/api/enterprises'', ''https://vsd/api/enterprises?responseChoice=1''] \<and>
      map Method (sent w') = [''GET'', ''GET''])"
proof -
  let ?p = "examplePlatform (answering [exampleResponse 300 [], exampleResponse 404 errorBody])
              decoding :: string list platform"
  let ?q1 = "dispatched ?p exampleSession exampleRequest None exampleWorld"
  let ?q2 = "dispatched ?p exampleSession (reissue exampleRequest) None
           (afterDispatch ?p exampleSession exampleRequest None exampleWorld)"
  have first: "Do ?p (sent exampleWorld) ?q1 = Inr (exampleResponse 300 [])"
    by (simp add: ex_defs)
  have status: "StatusCode (exampleResponse 300 []) = 300"
    by (simp add: ex_defs)
  have accepted: "ParseURL ?p (reqURL exampleRequest @ ''?responseChoice=1'') = None"
    by (simp add: ex_defs)
  have answer: "Do ?p (sent exampleWorld @ [?q1]) ?q2 = Inr (exampleResponse 404 errorBody)"
    by (simp add: ex_defs)
  have second: "\<forall>response2. Do ?p (sent exampleWorld @ [?q1]) ?q2 = Inr response2
      \<longrightarrow> StatusCode response2 \<noteq> 300"
    by (simp add: answer) (simp add: ex_defs)
  have described: "\<forall>response2 v. Do ?p (sent exampleWorld @ [?q1]) ?q2 = Inr response2 \<and>
      (StatusCode response2 = 404 \<or> StatusCode response2 = 409) \<and>
      UnmarshalErrors ?p (Body response2) = Inr v \<longrightarrow> firstDescription v \<noteq> None"
    by (simp add: answer) (auto simp add: ex_defs decoding_def firstDescription_def)
  from send_reissues_on_300 [OF first status accepted] second described
  obtain res i w' where
    "send ?p exampleSession exampleRequest None exampleWorld = Some (res, i, w')"
    "sent w' = sent exampleWorld @ [?q1, ?q2]" "\<forall>k. res \<noteq> Panic k"
    by blast
  then have "\<exists>res i w'.
      send ?p exampleSession exampleRequest None exampleWorld = Some (res, i, w') \<and>
      (\<forall>k. res \<noteq> Panic k) \<and>
      map reqURL (sent w') =
        [''https://vsd/api/enterprises'', ''https://vsd/api/enterprises?responseChoice=1''] \<and>
      map Method (sent w') = [''GET'', ''GET'']"
    by (simp add: reissue_def exampleRequest_def exampleWorld_def)
  with first status show ?thesis by (intro conjI)
qed

subsection \<open>C4: the answers 404 and 409\<close>

text \<open>
  Claim C4. When the response has status 404 or 409 and its body decodes to an error list,
  \<open>send\<close> returns the error whose title and description are those of the first description
  of the first error group; for the body of the claim, a single group with the single
  description T, D, that is the error T, D. When the body does not decode, \<open>send\<close> returns
  an error with an empty title and the text of the decoder.
\<close>

theorem send_decodes_error_list:
  assumes "Do p (sent w) (dispatched p s request info w) = Inr response"
    and "StatusCode response = 404 \<or> StatusCode response = 409"
  shows "(\<forall>v g gs d ds. UnmarshalErrors p (Body response) = Inr v \<and> VsdErrors v = g # gs \<and>
             Descriptions g = d # ds \<longrightarrow>
           send p s request info w =
             Some (Fail \<lparr>Title = Title d, Description = Description d\<rparr>, info,
                   afterDispatch p s request info w)) \<and>
         (\<forall>err. UnmarshalErrors p (Body response) = Inl err \<longrightarrow>
           send p s request info w =
             Some (Fail (NewBambouError [] err), info, afterDispatch p s request info w))"
  using assms
  by (subst send_unfold, subst send_unfold) (auto simp add: Let_def NewBambouError_def)

theorem send_decodes_error_list_witness:
  "send (examplePlatform (answering [exampleResponse 404 errorBody]) decoding)
      exampleSession exampleRequest None exampleWorld =
     Some (Fail \<lparr>Title = ''T'', Description = ''D''\<rparr>, None,
           afterDispatch (examplePlatform (answering [exampleResponse 404 errorBody]) decoding)
             exampleSession exampleRequest None exampleWorld) \<and>
   send (examplePlatform (answering [exampleResponse 409 ''<html>'']) decoding)
      exampleSession exampleRequest None exampleWorld =
     Some (Fail \<lparr>Title = [], Description = ''invalid character''\<rparr>, None,
           afterDispatch (examplePlatform (answering [exampleResponse 409 ''<html>'']) decoding)
             exampleSession exampleRequest None exampleWorld)"
proof -
  let ?p = "examplePlatform (answering [exampleResponse 404 errorBody]) decoding"
  let ?q = "examplePlatform (answering [exampleResponse 409 ''<html>'']) decoding"
  have p1: "Do ?p (sent exampleWorld) (dispatched ?p exampleSession exampleRequest None
      exampleWorld) = Inr (exampleResponse 404 errorBody)"
    by (simp add: ex_defs)
  have p2: "StatusCode (exampleResponse 404 errorBody) = 404
      \<or> StatusCode (exampleResponse 404 errorBody) = 409"
    by (simp add: ex_defs)
  have q1: "Do ?q (sent exampleWorld) (dispatched ?q exampleSession exampleRequest None
      exampleWorld) = Inr (exampleResponse 409 ''<html>'')"
    by (simp add: ex_defs)
  have q2: "StatusCode (exampleResponse 409 ''<html>'') = 404
      \<or> StatusCode (exampleResponse 409 ''<html>'') = 409"
    by (simp add: ex_defs)
  have dp: "UnmarshalErrors ?p (Body (exampleResponse 404 errorBody)) =
      Inr \<lparr>VsdErrors = [\<lparr>Descriptions = [\<lparr>Title = ''T'', Description = ''D''\<rparr>]\<rparr>]\<rparr>"
    by (simp add: ex_defs decoding_def)
  have dq: "UnmarshalErrors ?q (Body (exampleResponse 409 ''<html>'')) = Inl ''invalid character''"
    by (simp add: ex_defs decoding_def body_defs)
  from send_decodes_error_list [OF p1 p2, THEN conjunct1, rule_format,
      of "\<lparr>VsdErrors = [\<lparr>Descriptions = [\<lparr>Title = ''T'', Description = ''D''\<rparr>]\<rparr>]\<rparr>"
         "\<lparr>Descriptions = [\<lparr>Title = ''T'', Description = ''D''\<rparr>]\<rparr>" "[]"
         "\<lparr>Title = ''T'', Description = ''D''\<rparr>" "[]"] dp
  have a: "send ?p exampleSession exampleRequest None exampleWorld =
     Some (Fail \<lparr>Title = ''T'', Description = ''D''\<rparr>, None,
           afterDispatch ?p exampleSession exampleRequest None exampleWorld)"
    by simp
  from send_decodes_error_list [OF q1 q2, THEN conjunct2, rule_format, OF dq]
  have b: "send ?q exampleSession exampleRequest None exampleWorld =
     Some (Fail \<lparr>Title = [], Description = ''invalid character''\<rparr>, None,
           afterDispatch ?q exampleSession exampleRequest None exampleWorld)"
    by (simp add: NewBambouError_def)
  from a b show ?thesis by simp
qed

subsection \<open>C5: the error of prepareHeaders\<close>







lemma NewBambouError_fields [simp]:
  "Title (NewBambouError t d) = t" "Description (NewBambouError t d) = d"
  by (simp_all add: NewBambouError_def)









subsection \<open>C6: the index panic\<close>

text \<open>
  Claim C6. There are responses with status 404 or 409 and a body that decodes, for which
  \<open>send\<close> panics with an index out of range instead of returning an error: whenever the
  decoded list of error groups is empty, or its first group has no description.
\<close>

theorem send_index_panic:
  assumes "Do p (sent w) (dispatched p s request info w) = Inr response"
    and "StatusCode response = 404 \<or> StatusCode response = 409"
    and "UnmarshalErrors p (Body response) = Inr v"
    and "VsdErrors v = [] \<or> (\<exists>g gs. VsdErrors v = g # gs \<and> Descriptions g = [])"
  shows "send p s request info w =
           Some (Panic IndexOutOfRange, info, afterDispatch p s request info w)"
  using assms
  by (subst send_unfold) (auto simp add: Let_def)

theorem send_index_panic_witness:
  "send (examplePlatform (answering [exampleResponse 404 noErrorsBody]) decoding)
      exampleSession exampleRequest None exampleWorld =
     Some (Panic IndexOutOfRange, None,
           afterDispatch (examplePlatform (answering [exampleResponse 404 noErrorsBody]) decoding)
             exampleSession exampleRequest None exampleWorld) \<and>
   send (examplePlatform (answering [exampleResponse 409 noDescriptionsBody]) decoding)
      exampleSession exampleRequest None exampleWorld =
     Some (Panic IndexOutOfRange, None,
           afterDispatch (examplePlatform (answering [exampleResponse 409 noDescriptionsBody])
             decoding) exampleSession exampleRequest None exampleWorld)"
proof -
  let ?p = "examplePlatform (answering [exampleResponse 404 noErrorsBody]) decoding"
  let ?q = "examplePlatform (answering [exampleResponse 409 noDescriptionsBody]) decoding"
  have p1: "Do ?p (sent exampleWorld) (dispatched ?p exampleSession exampleRequest None
      exampleWorld) = Inr (exampleResponse 404 noErrorsBody)"
    by (simp add: ex_defs)
  have p2: "StatusCode (exampleResponse 404 noErrorsBody) = 404
      \<or> StatusCode (exampleResponse 404 noErrorsBody) = 409"
    by (simp add: ex_defs)
  have p3: "UnmarshalErrors ?p (Body (exampleResponse 404 noErrorsBody)) = Inr \<lparr>VsdErrors = []\<rparr>"
    by (simp add: ex_defs decoding_def body_defs)
  have p4: "VsdErrors \<lparr>VsdErrors = []\<rparr> = [] \<or>
      (\<exists>g gs. VsdErrors \<lparr>VsdErrors = []\<rparr> = g # gs \<and> Descriptions g = [])"
    by simp
  have q1: "Do ?q (sent exampleWorld) (dispatched ?q exampleSession exampleRequest None
      exampleWorld) = Inr (exampleResponse 409 noDescriptionsBody)"
    by (simp add: ex_defs)
  have q2: "StatusCode (exampleResponse 409 noDescriptionsBody) = 404
      \<or> StatusCode (exampleResponse 409 noDescriptionsBody) = 409"
    by (simp add: ex_defs)
  have q3: "UnmarshalErrors ?q (Body (exampleResponse 409 noDescriptionsBody)) =
      Inr \<lparr>VsdErrors = [\<lparr>Descriptions = []\<rparr>]\<rparr>"
    by (simp add: ex_defs decoding_def body_defs)
  have q4: "VsdErrors \<lparr>VsdErrors = [\<lparr>Descriptions = []\<rparr>]\<rparr> = [] \<or>
      (\<exists>g gs. VsdErrors \<lparr>VsdErrors = [\<lparr>Descriptions = []\<rparr>]\<rparr> = g # gs \<and> Descriptions g = [])"
    by simp
  from send_index_panic [OF p1 p2 p3 p4] send_index_panic [OF q1 q2 q3 q4]
  show ?thesis by simp
qed

subsection \<open>C7: AssignChildren and children without identifier\<close>

lemma collectIDs_unidentified:
  "c \<in> set cs \<Longrightarrow> Identifier c = [] \<Longrightarrow>
   collectIDs cs ids = Inl (NewBambouError ''VSD Error'' ''One of the object to assign has no ID'')"
  by (induction cs arbitrary: ids) auto

lemma getURLForChildrenIdentity_cases:
  "getURLForChildrenIdentity s obj ident =
     (if isRootable obj \<or> Identifier obj \<noteq> [] then
        (if isRootable obj then Inr (URL s @ ''/'' @ Category ident)
         else Inr (getGeneralURL s obj @ ''/'' @ Identifier obj @ ''/'' @ Category ident))
      else Inl (NewBambouError ''VSD error''
                  ''Cannot GetPersonalURL of an object with no ID set''))"
  by (simp add: getURLForChildrenIdentity_def getPersonalURL_def)

text \<open>
  Claim C7 says that a call of \<open>AssignChildren\<close> with a child without identifier returns
  the error titled "VSD Error". The URL of the parent is resolved first: with a parent
  that is not Rootable and has no identifier, the call returns the error of
  \<open>getPersonalURL\<close>, titled "VSD error", whatever the children are.
\<close>

theorem AssignChildren_parent_error_counterexample:
  "Identifier (objects exampleWorld 2) = [] \<and>
   AssignChildren (examplePlatform refusing undecodable) exampleSession 2 [2]
       \<lparr>Name = ''user'', Category = ''users''\<rparr> exampleWorld =
     Some (Fail \<lparr>Title = ''VSD error'',
                 Description = ''Cannot GetPersonalURL of an object with no ID set''\<rparr>,
           exampleWorld) \<and>
   AssignChildren (examplePlatform refusing undecodable) exampleSession 2 [2]
       \<lparr>Name = ''user'', Category = ''users''\<rparr> exampleWorld \<noteq>
     Some (Fail \<lparr>Title = ''VSD Error'',
                 Description = ''One of the object to assign has no ID''\<rparr>, exampleWorld)"
  by (simp add: AssignChildren_def getURLForChildrenIdentity_def getPersonalURL_def
      NewBambouError_def ex_defs)

text \<open>
  Claim C7, amended. A call of \<open>AssignChildren\<close> whose children contain one with an empty
  identifier, at any position, returns an error and leaves the world as it is, so no
  request is dispatched. The error is "VSD Error", "One of the object to assign has no ID",
  when the parent is Rootable or has an identifier, and the "no ID set" error of the
  parent otherwise.
\<close>

theorem AssignChildren_unidentified_child:
  assumes "c \<in> set children" and "Identifier (objects w c) = []"
  shows "(isRootable (objects w parent) \<or> Identifier (objects w parent) \<noteq> [] \<longrightarrow>
            AssignChildren p s parent children ident w =
              Some (Fail (NewBambouError ''VSD Error'' ''One of the object to assign has no ID''),
                    w)) \<and>
         (\<not> isRootable (objects w parent) \<and> Identifier (objects w parent) = [] \<longrightarrow>
            AssignChildren p s parent children ident w =
              Some (Fail (NewBambouError ''VSD error''
                            ''Cannot GetPersonalURL of an object with no ID set''), w))"
proof -
  from assms have "objects w c \<in> set (map (objects w) children)"
    by simp
  from collectIDs_unidentified [OF this assms(2)]
  have ids: "collectIDs (map (objects w) children) [] =
      Inl (NewBambouError ''VSD Error'' ''One of the object to assign has no ID'')" .
  show ?thesis
    by (simp add: AssignChildren_def getURLForChildrenIdentity_cases ids)
qed

theorem AssignChildren_unidentified_child_witness:
  "AssignChildren (examplePlatform refusing undecodable) exampleSession 1 [1, 2]
       \<lparr>Name = ''user'', Category = ''users''\<rparr> exampleWorld =
     Some (Fail \<lparr>Title = ''VSD Error'',
                 Description = ''One of the object to assign has no ID''\<rparr>, exampleWorld) \<and>
   AssignChildren (examplePlatform refusing undecodable) exampleSession 2 [1, 2]
       \<lparr>Name = ''user'', Category = ''users''\<rparr> exampleWorld =
     Some (Fail \<lparr>Title = ''VSD error'',
                 Description = ''Cannot GetPersonalURL of an object with no ID set''\<rparr>,
           exampleWorld) \<and>
   sent exampleWorld = []"
proof -
  have c: "(2::nat) \<in> set [1, 2]" by simp
  have i: "Identifier (objects exampleWorld 2) = []" by (simp add: ex_defs)
  from AssignChildren_unidentified_child [OF c i, of 1 "examplePlatform refusing undecodable"
      exampleSession "\<lparr>Name = ''user'', Category = ''users''\<rparr>"]
    AssignChildren_unidentified_child [OF c i, of 2 "examplePlatform refusing undecodable"
      exampleSession "\<lparr>Name = ''user'', Category = ''users''\<rparr>"]
  show ?thesis by (simp add: ex_defs NewBambouError_def)
qed

subsection \<open>C8: Reset\<close>

text \<open>
  Claim C8 says that after \<open>Reset\<close>, for every session, \<open>CurrentSession\<close> returns no session
  and the API key of the root is empty. A session whose root is nil is a session (the
  authorization code tests for it); on it \<open>Reset\<close> panics in \<^verbatim>\<open>s.root.SetAPIKey("")\<close>, before
  the assignment to \<^verbatim>\<open>currentSession\<close>, which stays registered.
\<close>

theorem Reset_nil_root_counterexample:
  "Reset exampleNoRoot (exampleWorld\<lparr>currentSession := Some exampleNoRoot\<rparr>) =
     (Panic NilDereference, exampleWorld\<lparr>currentSession := Some exampleNoRoot\<rparr>) \<and>
   CurrentSession (snd (Reset exampleNoRoot (exampleWorld\<lparr>currentSession := Some exampleNoRoot\<rparr>)))
     = Some exampleNoRoot"
  by (simp add: Reset_def exampleNoRoot_def NewSession_def CurrentSession_def)

text \<open>
  Claim C8, amended. For every session whose root is not nil, \<open>Reset\<close> returns normally,
  after it \<open>CurrentSession\<close> returns no session and the API key of the root object is the
  empty string, and no request has been dispatched: the log of the client is unchanged.
\<close>

theorem Reset_clears:
  assumes "root s = Some r"
  shows "\<exists>w'. Reset s w = (Ok (), w') \<and> CurrentSession w' = None \<and>
           APIKey (objects w' r) = [] \<and> sent w' = sent w"
  using assms by (simp add: Reset_def Let_def CurrentSession_def SetAPIKey_def)

theorem Reset_clears_witness:
  "root exampleSession = Some 0 \<and>
   (\<exists>w'. Reset exampleSession (exampleWorld\<lparr>currentSession := Some exampleSession\<rparr>) = (Ok (), w') \<and>
      CurrentSession w' = None \<and> APIKey (objects w' 0) = [] \<and>
      sent w' = sent (exampleWorld\<lparr>currentSession := Some exampleSession\<rparr>))"
proof -
  have r: "root exampleSession = Some 0"
    by (simp add: exampleSession_def NewSession_def)
  show ?thesis
    using r Reset_clears [OF r, of "exampleWorld\<lparr>currentSession := Some exampleSession\<rparr>"]
    by simp
qed

subsection \<open>C9: FetchChildren and empty responses\<close>

text \<open>
  Claim C9. When the response that \<open>send\<close> returns to \<open>FetchChildren\<close> has status 204 or a
  content length of zero, \<open>FetchChildren\<close> returns no error and the destination as it was
  passed, whatever the decoder would make of the body. Otherwise the destination is what
  the decoder leaves, and the result is its error, if any.
\<close>

theorem FetchChildren_decodes_unless_empty:
  assumes "getURLForChildrenIdentity s (objects w parent) ident = Inr url"
    and "NewRequest p ''GET'' url None = Inr request"
    and "send p s request info w = Some (Ok response, info1, w1)"
  shows "(StatusCode response = 204 \<or> ContentLength response = 0 \<longrightarrow>
            FetchChildren p s parent ident dest info w = Some (Ok (), dest, info1, w1)) \<and>
         (\<not> (StatusCode response = 204 \<or> ContentLength response = 0) \<longrightarrow>
            FetchChildren p s parent ident dest info w =
              Some (case fst (UnmarshalDest p (Body response) dest) of
                      None \<Rightarrow> Ok ()
                    | Some e \<Rightarrow> Fail (NewBambouError [] e),
                    snd (UnmarshalDest p (Body response) dest), info1, w1))"
  using assms
  by (auto simp add: FetchChildren_def split: prod.splits option.splits)

theorem FetchChildren_decodes_unless_empty_witness:
  "FetchChildren (examplePlatform (answering [exampleResponse 204 ''ignored'']) undecodable)
       exampleSession 0 \<lparr>Name = ''enterprise'', Category = ''enterprises''\<rparr> [''old''] None
       exampleWorld =
     Some (Ok (), [''old''], None,
       afterDispatch (examplePlatform (answering [exampleResponse 204 ''ignored'']) undecodable)
         exampleSession exampleRequest None exampleWorld) \<and>
   FetchChildren (examplePlatform (answering [exampleResponse 200 ''[1]'']) undecodable)
       exampleSession 0 \<lparr>Name = ''enterprise'', Category = ''enterprises''\<rparr> [''old''] None
       exampleWorld =
     Some (Ok (), [''[1]''], None,
       afterDispatch (examplePlatform (answering [exampleResponse 200 ''[1]'']) undecodable)
         exampleSession exampleRequest None exampleWorld)"
proof -
  let ?p = "examplePlatform (answering [exampleResponse 204 ''ignored'']) undecodable"
  let ?q = "examplePlatform (answering [exampleResponse 200 ''[1]'']) undecodable"
  let ?ident = "\<lparr>Name = ''enterprise'', Category = ''enterprises''\<rparr>"
  have url: "getURLForChildrenIdentity exampleSession (objects exampleWorld 0) ?ident =
      Inr ''https://vsd/api/enterprises''"
    by (simp add: getURLForChildrenIdentity_def ex_defs)
  have rp: "NewRequest ?p ''GET'' ''https://vsd/api/enterprises'' None = Inr exampleRequest"
    by (simp add: NewRequest_def ex_defs)
  have rq: "NewRequest ?q ''GET'' ''https://vsd/api/enterprises'' None = Inr exampleRequest"
    by (simp add: NewRequest_def ex_defs)
  have sp: "send ?p exampleSession exampleRequest None exampleWorld =
      Some (Ok (exampleResponse 204 ''ignored''), None,
            afterDispatch ?p exampleSession exampleRequest None exampleWorld)"
    by (simp add: send_unfold Let_def readHeaders_def ex_defs)
  have sq: "send ?q exampleSession exampleRequest None exampleWorld =
      Some (Ok (exampleResponse 200 ''[1]''), None,
            afterDispatch ?q exampleSession exampleRequest None exampleWorld)"
    by (simp add: send_unfold Let_def readHeaders_def ex_defs)
  from FetchChildren_decodes_unless_empty [OF url rp sp, of "[''old'']"]
    FetchChildren_decodes_unless_empty [OF url rq sq, of "[''old'']"]
  show ?thesis
    by (simp add: ex_defs)
qed

subsection \<open>C10: Start\<close>

lemma FetchEntity_currentSession:
  assumes "FetchEntity p s a w = Some (r, w')"
  shows "currentSession w' = currentSession w"
proof (cases "getPersonalURL s (objects w a)")
  case (Inl berr)
  with assms show ?thesis by (auto simp add: FetchEntity_def)
next
  case url: (Inr url)
  show ?thesis
  proof (cases "NewRequest p ''GET'' url None")
    case (Inl err)
    with assms url show ?thesis by (auto simp add: FetchEntity_def)
  next
    case rq: (Inr request)
    show ?thesis
    proof (cases "send p s request None w")
      case None
      with assms url rq show ?thesis by (simp add: FetchEntity_def)
    next
      case (Some y)
      from send_frame [OF Some] have "currentSession (snd (snd y)) = currentSession w"
        by simp
      with assms url rq Some show ?thesis
        by (auto simp add: FetchEntity_def Let_def
            split: prod.splits result.splits option.splits)
    qed
  qed
qed

text \<open>
  Claim C10. \<open>Start\<close> registers the session before it fetches the root: the fetch runs in
  the world where \<open>CurrentSession\<close> is the session. Whatever \<open>Start\<close> returns, the session is
  registered afterwards; in particular, when the fetch of the root fails with an error,
  \<open>Start\<close> returns that error and \<open>CurrentSession\<close> still returns the session.
\<close>

theorem Start_registers_first:
  "(\<forall>r w'. Start p s w = Some (r, w') \<longrightarrow> CurrentSession w' = Some s) \<and>
   (\<forall>rt. root s = Some rt \<longrightarrow>
      Start p s w = FetchEntity p s rt (w\<lparr>currentSession := Some s\<rparr>)) \<and>
   (\<forall>rt e w'. root s = Some rt \<and>
        FetchEntity p s rt (w\<lparr>currentSession := Some s\<rparr>) = Some (Fail e, w') \<longrightarrow>
      Start p s w = Some (Fail e, w') \<and> CurrentSession w' = Some s)"
proof -
  have reg: "CurrentSession w' = Some s" if "Start p s w = Some (r, w')" for r w'
  proof (cases "root s")
    case None
    with that show ?thesis by (auto simp add: Start_def CurrentSession_def)
  next
    case (Some rt)
    with that have "FetchEntity p s rt (w\<lparr>currentSession := Some s\<rparr>) = Some (r, w')"
      by (simp add: Start_def)
    from FetchEntity_currentSession [OF this] show ?thesis
      by (simp add: CurrentSession_def)
  qed
  have eq: "Start p s w = FetchEntity p s rt (w\<lparr>currentSession := Some s\<rparr>)"
    if "root s = Some rt" for rt
    using that by (simp add: Start_def)
  from reg eq show ?thesis by metis
qed

theorem Start_registers_first_witness:
  "root exampleSession = Some 0 \<and>
   fst (the (Start (examplePlatform refusing undecodable) exampleSession exampleWorld)) =
     Fail \<lparr>Title = [], Description = ''connection refused''\<rparr> \<and>
   CurrentSession (snd (the (Start (examplePlatform refusing undecodable) exampleSession
     exampleWorld))) = Some exampleSession"
proof -
  let ?p = "examplePlatform refusing undecodable"
  let ?e = "\<lparr>Title = [], Description = ''connection refused''\<rparr>"
  have r: "root exampleSession = Some 0"
    by (simp add: ex_defs)
  have "\<exists>w'. FetchEntity ?p exampleSession 0 (exampleWorld\<lparr>currentSession := Some exampleSession\<rparr>)
      = Some (Fail ?e, w')"
    by (simp add: op_defs send_unfold Let_def NewBambouError_def ex_defs)
  then obtain w' where
    f: "FetchEntity ?p exampleSession 0 (exampleWorld\<lparr>currentSession := Some exampleSession\<rparr>)
      = Some (Fail ?e, w')"
    by blast
  from Start_registers_first [of ?p exampleSession exampleWorld] r f
  have "Start ?p exampleSession exampleWorld = Some (Fail ?e, w') \<and>
      CurrentSession w' = Some exampleSession"
    by blast
  with r show ?thesis by simp
qed

end
